theory Spec2Isabelle
  imports Complex_Main
begin

section \<open>Python values\<close>

text \<open>
  A Python float is a finite double, a NaN or an infinity. Every finite double is a
  rational number, so a finite float is represented by its value; comparisons with the
  bounds of a field are then exact.
\<close>

datatype pyfloat = Finite rat | NaN | PosInf | NegInf

text \<open>
  The values that \<^verbatim>\<open>json.loads\<close> returns and \<^verbatim>\<open>json.dumps\<close> accepts: \<^verbatim>\<open>None\<close>,
  booleans, integers, floats, strings, lists and dictionaries with string keys. A
  dictionary is the list of its items in insertion order; its keys are distinct.
\<close>

datatype json =
    JNull
  | JBool bool
  | JInt int
  | JFloat pyfloat
  | JStr string
  | JArr "json list"
  | JObj "(string \<times> json) list"



section \<open>Record schema library (models/brd\_models.py)\<close>

text \<open>
  Each record kind is a pydantic class: a list of field declarations
  \<^verbatim>\<open>name: type = Field(default, min_length=.., max_length=.., ge=.., le=..)\<close>.
  A declaration is kept as data, a class as the list of its declarations in source
  order. \<^verbatim>\<open>Field(...)\<close> (no default, the field is required) is \<open>fdefault = None\<close>.
\<close>

datatype ftype = TStr | TOptStr | TFloat | TBool

record field =
  fname :: string
  ftype :: ftype
  fdefault :: "json option"
  min_length :: "nat option"
  max_length :: "nat option"
  ge :: "rat option"
  le :: "rat option"

definition str_field :: "string \<Rightarrow> string option \<Rightarrow> nat option \<Rightarrow> nat option \<Rightarrow> field" where
  "str_field n d mn mx =
     \<lparr>fname = n, ftype = TStr, fdefault = map_option JStr d,
      min_length = mn, max_length = mx, ge = None, le = None\<rparr>"

definition optional_str_field :: "string \<Rightarrow> field" where
  "optional_str_field n =
     \<lparr>fname = n, ftype = TOptStr, fdefault = Some JNull,
      min_length = None, max_length = None, ge = None, le = None\<rparr>"

definition float_field :: "string \<Rightarrow> rat option \<Rightarrow> rat option \<Rightarrow> rat option \<Rightarrow> field" where
  "float_field n d lo hi =
     \<lparr>fname = n, ftype = TFloat, fdefault = map_option (\<lambda>q. JFloat (Finite q)) d,
      min_length = None, max_length = None, ge = lo, le = hi\<rparr>"

definition bool_field :: "string \<Rightarrow> bool option \<Rightarrow> field" where
  "bool_field n d =
     \<lparr>fname = n, ftype = TBool, fdefault = map_option JBool d,
      min_length = None, max_length = None, ge = None, le = None\<rparr>"

definition OverviewModel :: "field list" where
  "OverviewModel =
    [str_field ''project_name'' None (Some 1) (Some 255),
     str_field ''project_description'' None (Some 10) (Some 2000),
     str_field ''business_goal'' None (Some 10) (Some 2000),
     str_field ''document_version'' (Some ''1.0'') None None,
     str_field ''prepared_by'' (Some '''') None (Some 255),
     str_field ''approved_by'' (Some '''') None (Some 255),
     optional_str_field ''target_release_date'']"

definition UISpecificationModel :: "field list" where
  "UISpecificationModel =
    [str_field ''requirement_id'' (Some '''') None (Some 50),
     str_field ''feature_module'' (Some '''') None (Some 255),
     str_field ''screen_component'' None (Some 1) (Some 255),
     str_field ''requirement_description'' None (Some 10) (Some 2000),
     str_field ''validation_rule'' (Some '''') None (Some 1000),
     str_field ''business_rule'' (Some '''') None (Some 1000),
     str_field ''master_detail'' (Some ''N/A'') None None,
     str_field ''priority'' (Some ''Should'') None None]"

definition APISpecificationModel :: "field list" where
  "APISpecificationModel =
    [str_field ''api_id'' None (Some 1) (Some 50),
     str_field ''api_name'' None (Some 1) (Some 255),
     str_field ''method'' None None None,
     str_field ''endpoint'' None (Some 1) (Some 255),
     str_field ''request_payload'' (Some '''') None (Some 2000),
     str_field ''response_payload'' (Some '''') None (Some 2000),
     str_field ''business_rule'' (Some '''') None (Some 1000),
     str_field ''api_type'' (Some ''Internal'') None None]"

definition LLMPromptModel :: "field list" where
  "LLMPromptModel =
    [str_field ''prompt_id'' None (Some 1) (Some 50),
     str_field ''use_case'' None (Some 1) (Some 255),
     str_field ''prompt_template'' None (Some 10) (Some 5000),
     str_field ''input_variables'' (Some '''') None (Some 1000),
     str_field ''expected_output'' (Some '''') None (Some 1000),
     str_field ''model_name'' (Some ''llama3.2'') None None,
     float_field ''temperature'' (Some (7 / 10)) (Some 0) (Some 2)]"

definition DatabaseSchemaModel :: "field list" where
  "DatabaseSchemaModel =
    [str_field ''table_name'' None (Some 1) (Some 255),
     str_field ''field_name'' None (Some 1) (Some 255),
     str_field ''data_type'' None (Some 1) (Some 100),
     str_field ''constraints'' (Some '''') None (Some 500),
     str_field ''relationship'' (Some ''N/A'') None None,
     str_field ''description'' (Some '''') None (Some 1000)]"

definition TechStackModel :: "field list" where
  "TechStackModel =
    [str_field ''category'' None (Some 1) (Some 255),
     str_field ''technology_tool'' None (Some 1) (Some 255),
     str_field ''version'' (Some '''') None (Some 100),
     str_field ''rationale'' (Some '''') None (Some 1000),
     str_field ''repository_url'' (Some '''') None (Some 500)]"

definition TraceabilityModel :: "field list" where
  "TraceabilityModel =
    [str_field ''business_requirement_id'' None (Some 1) (Some 50),
     str_field ''business_requirement'' None (Some 10) (Some 2000),
     str_field ''linked_ui_id'' (Some '''') None (Some 500),
     str_field ''linked_api_id'' (Some '''') None (Some 500),
     str_field ''linked_llm_id'' (Some '''') None (Some 500),
     str_field ''status'' (Some ''Proposed'') None None]"

definition AgentArchitectureModel :: "field list" where
  "AgentArchitectureModel =
    [str_field ''agent_id'' None (Some 1) (Some 50),
     str_field ''agent_name'' None (Some 1) (Some 255),
     str_field ''agent_type'' None None None,
     str_field ''primary_role'' None (Some 1) (Some 255),
     str_field ''capabilities'' (Some '''') None (Some 2000),
     str_field ''dependencies'' (Some '''') None (Some 500),
     str_field ''communication_protocol'' (Some ''REST'') None None,
     str_field ''description'' (Some '''') None (Some 1000)]"

definition AgentConfigurationModel :: "field list" where
  "AgentConfigurationModel =
    [str_field ''config_id'' None (Some 1) (Some 50),
     str_field ''agent_id'' None (Some 1) (Some 50),
     str_field ''parameter_name'' None (Some 1) (Some 255),
     str_field ''parameter_value'' None (Some 1) (Some 1000),
     str_field ''parameter_type'' (Some ''string'') None None,
     str_field ''description'' (Some '''') None (Some 500),
     bool_field ''required'' (Some True)]"

definition AgentTaskModel :: "field list" where
  "AgentTaskModel =
    [str_field ''task_id'' None (Some 1) (Some 50),
     str_field ''agent_id'' None (Some 1) (Some 50),
     str_field ''task_name'' None (Some 1) (Some 255),
     str_field ''task_type'' None None None,
     str_field ''input_data'' (Some '''') None (Some 1000),
     str_field ''output_data'' (Some '''') None (Some 1000),
     str_field ''success_criteria'' (Some '''') None (Some 1000),
     str_field ''error_handling'' (Some '''') None (Some 500),
     str_field ''description'' (Some '''') None (Some 1000)]"

subsection \<open>Construction\<close>

text \<open>
  \<^verbatim>\<open>Model(**kwargs)\<close> validates every declared field and reports all failures together
  in one \<^verbatim>\<open>ValidationError\<close>, one entry per failing field; keys that name no field are
  ignored, and a default is taken as it is. A value of the field's own type is kept. What
  pydantic makes of a value of another type where a float or a bool is declared (the
  integer 1 or the string "0.5" for a float, say) is the library's business and is taken
  as the parameter \<open>lax\<close>; a string field accepts strings only.
\<close>

datatype verr = Missing | Invalid_type | Too_short | Too_long | Out_of_range

datatype error =
    ValidationError "(string \<times> verr) list"
  | JSONDecodeError
  | TypeError
  | IntegrityError
  | InterfaceError
  | OperationalError
  | AttributeError

record lax =
  as_float :: "json \<Rightarrow> pyfloat option"
  as_bool :: "json \<Rightarrow> bool option"

type_synonym obj = "(string \<times> json) list"

fun coerce :: "lax \<Rightarrow> ftype \<Rightarrow> json \<Rightarrow> json option" where
  "coerce lx TStr (JStr s) = Some (JStr s)"
| "coerce lx TStr _ = None"
| "coerce lx TOptStr JNull = Some JNull"
| "coerce lx TOptStr (JStr s) = Some (JStr s)"
| "coerce lx TOptStr _ = None"
| "coerce lx TFloat (JFloat x) = Some (JFloat x)"
| "coerce lx TFloat v = map_option JFloat (as_float lx v)"
| "coerce lx TBool (JBool b) = Some (JBool b)"
| "coerce lx TBool v = map_option JBool (as_bool lx v)"

definition ge_ok :: "rat option \<Rightarrow> pyfloat \<Rightarrow> bool" where
  "ge_ok b x = (case b of None \<Rightarrow> True
     | Some lo \<Rightarrow> (case x of Finite q \<Rightarrow> lo \<le> q | PosInf \<Rightarrow> True | _ \<Rightarrow> False))"

definition le_ok :: "rat option \<Rightarrow> pyfloat \<Rightarrow> bool" where
  "le_ok b x = (case b of None \<Rightarrow> True
     | Some hi \<Rightarrow> (case x of Finite q \<Rightarrow> q \<le> hi | NegInf \<Rightarrow> True | _ \<Rightarrow> False))"

definition check :: "field \<Rightarrow> json \<Rightarrow> verr option" where
  "check f v =
     (case v of
        JStr s \<Rightarrow>
          (if (case min_length f of None \<Rightarrow> False | Some n \<Rightarrow> length s < n) then Some Too_short
           else if (case max_length f of None \<Rightarrow> False | Some n \<Rightarrow> n < length s) then Some Too_long
           else None)
      | JFloat x \<Rightarrow> (if ge_ok (ge f) x \<and> le_ok (le f) x then None else Some Out_of_range)
      | _ \<Rightarrow> None)"

definition validate_field :: "lax \<Rightarrow> obj \<Rightarrow> field \<Rightarrow> verr + json" where
  "validate_field lx kw f =
     (case map_of kw (fname f) of
        None \<Rightarrow> (case fdefault f of None \<Rightarrow> Inl Missing | Some d \<Rightarrow> Inr d)
      | Some v \<Rightarrow>
          (case coerce lx (ftype f) v of
             None \<Rightarrow> Inl Invalid_type
           | Some w \<Rightarrow> (case check f w of Some e \<Rightarrow> Inl e | None \<Rightarrow> Inr w)))"

definition errors :: "lax \<Rightarrow> field list \<Rightarrow> obj \<Rightarrow> (string \<times> verr) list" where
  "errors lx fs kw =
     concat (map (\<lambda>f. case validate_field lx kw f of Inl e \<Rightarrow> [(fname f, e)] | Inr v \<Rightarrow> []) fs)"

definition fields_set :: "lax \<Rightarrow> field list \<Rightarrow> obj \<Rightarrow> obj" where
  "fields_set lx fs kw =
     concat (map (\<lambda>f. case validate_field lx kw f of Inl e \<Rightarrow> [] | Inr v \<Rightarrow> [(fname f, v)]) fs)"

text \<open>
  An instance is the list of its fields with their values, in declaration order. It is
  a mutable object: a later assignment to a field is not validated.
\<close>

definition construct :: "lax \<Rightarrow> field list \<Rightarrow> obj \<Rightarrow> error + obj" where
  "construct lx fs kw =
     (if errors lx fs kw = [] then Inr (fields_set lx fs kw)
      else Inl (ValidationError (errors lx fs kw)))"

definition attr :: "obj \<Rightarrow> string \<Rightarrow> json" where
  "attr r n = (case map_of r n of Some v \<Rightarrow> v | None \<Rightarrow> JNull)"

definition model_dump :: "obj \<Rightarrow> json" where
  "model_dump r = JObj r"

text \<open>A conversion table that converts nothing, for concrete evaluations.\<close>

definition no_conversion :: lax where
  "no_conversion = \<lparr>as_float = (\<lambda>v. None), as_bool = (\<lambda>v. None)\<rparr>"

section \<open>Project aggregate\<close>

text \<open>
  \<^verbatim>\<open>BRDProjectModel\<close>: one overview and nine ordered collections. Its \<^verbatim>\<open>created_at\<close>
  and \<^verbatim>\<open>updated_at\<close> are set from the clock when the object is built and are neither
  stored nor read by the functions below, so they are left out.
\<close>

record BRDProjectModel =
  project_id :: "string option"
  template_type :: string
  overview :: obj
  ui_specifications :: "obj list"
  api_specifications :: "obj list"
  llm_prompts :: "obj list"
  database_schema :: "obj list"
  tech_stack :: "obj list"
  traceability_matrix :: "obj list"
  agent_architectures :: "obj list"
  agent_configurations :: "obj list"
  agent_tasks :: "obj list"

section \<open>Persistence store (utils/database.py)\<close>

text \<open>
  A text cell of a JSON column. The code only tests such a cell for truth and hands it to
  \<^verbatim>\<open>json.loads\<close>, which belongs to Python's library; the cell is therefore represented
  by what \<^verbatim>\<open>json.loads\<close> makes of it: \<open>Doc j\<close> is a text that is read as the value
  \<open>j\<close> (so \<^verbatim>\<open>json.dumps(j)\<close> is such a text), \<open>Malformed\<close> a non-empty text
  that \<^verbatim>\<open>json.loads\<close> rejects, \<open>Empty\<close> the empty string and \<open>Null\<close> SQL NULL.
\<close>

datatype jtext = Null | Empty | Malformed | Doc json

definition text_truthy :: "jtext \<Rightarrow> bool" where
  "text_truthy c = (case c of Null \<Rightarrow> False | Empty \<Rightarrow> False | _ \<Rightarrow> True)"

definition json_loads :: "jtext \<Rightarrow> error + json" where
  "json_loads c = (case c of Null \<Rightarrow> Inl TypeError | Empty \<Rightarrow> Inl JSONDecodeError
     | Malformed \<Rightarrow> Inl JSONDecodeError | Doc j \<Rightarrow> Inr j)"

definition json_dumps :: "json \<Rightarrow> jtext" where
  "json_dumps j = Doc j"

definition model_dump_json :: "obj \<Rightarrow> jtext" where
  "model_dump_json r = Doc (model_dump r)"

text \<open>
  One row of the table \<^verbatim>\<open>projects\<close>, a field per column. The columns
  \<^verbatim>\<open>project_id\<close>, \<^verbatim>\<open>project_name\<close> and \<^verbatim>\<open>template_type\<close> are the fields
  \<open>row_id\<close>, \<open>row_name\<close> and \<open>row_template\<close>. A table is the list of its column
  names, as \<^verbatim>\<open>PRAGMA table_info\<close> lists them, and its rows in insertion order; the
  field of a column that the table does not have carries no meaning. The store is
  \<open>None\<close> while the table does not exist.
\<close>

record row =
  row_id :: string
  row_name :: json
  row_template :: "string option"
  overview_json :: jtext
  ui_specs_json :: jtext
  api_specs_json :: jtext
  llm_prompts_json :: jtext
  db_schema_json :: jtext
  tech_stack_json :: jtext
  traceability_json :: jtext
  agent_architectures_json :: jtext
  agent_configurations_json :: jtext
  agent_tasks_json :: jtext
  created_at :: string
  updated_at :: string

record table =
  columns :: "string list"
  rows :: "row list"

type_synonym db = "table option"

definition all_columns :: "string list" where
  "all_columns =
    [''project_id'', ''project_name'', ''template_type'', ''overview_json'',
     ''ui_specs_json'', ''api_specs_json'', ''llm_prompts_json'', ''db_schema_json'',
     ''tech_stack_json'', ''traceability_json'', ''agent_architectures_json'',
     ''agent_configurations_json'', ''agent_tasks_json'', ''created_at'', ''updated_at'']"

text \<open>
  \<^verbatim>\<open>ALTER TABLE projects ADD COLUMN c TEXT DEFAULT d\<close>: the column is appended and
  every existing row reads the default in it.
\<close>

definition add_column :: "string \<Rightarrow> (row \<Rightarrow> row) \<Rightarrow> table \<Rightarrow> table" where
  "add_column c dflt t = \<lparr>columns = columns t @ [c], rows = map dflt (rows t)\<rparr>"

definition required_columns :: "(string \<times> (row \<Rightarrow> row)) list" where
  "required_columns =
    [(''template_type'', \<lambda>r. r\<lparr>row_template := Some ''Normal''\<rparr>),
     (''agent_architectures_json'', \<lambda>r. r\<lparr>agent_architectures_json := Doc (JArr [])\<rparr>),
     (''agent_configurations_json'', \<lambda>r. r\<lparr>agent_configurations_json := Doc (JArr [])\<rparr>),
     (''agent_tasks_json'', \<lambda>r. r\<lparr>agent_tasks_json := Doc (JArr [])\<rparr>)]"

text \<open>
  \<^verbatim>\<open>init_database\<close> returns the table as it is afterwards. The names of the existing
  columns are read once, before the loop over \<^verbatim>\<open>required_columns\<close>.
\<close>

definition init_database :: "db \<Rightarrow> table" where
  "init_database d =
     (case d of
        None \<Rightarrow> \<lparr>columns = all_columns, rows = []\<rparr>
      | Some t \<Rightarrow>
          (let existing_columns = set (columns t)
           in fold (\<lambda>(col_name, dflt) t'.
                      if col_name \<notin> existing_columns then add_column col_name dflt t' else t')
                required_columns t))"


text \<open>
  \<^verbatim>\<open>create_project\<close>. The two readings of the clock are parameters: \<open>stamp\<close> is
  \<^verbatim>\<open>datetime.now().strftime('%Y%m%d%H%M%S')\<close> and \<open>now\<close> is
  \<^verbatim>\<open>datetime.now().isoformat()\<close>. The result is the returned id or the exception
  raised, together with the table afterwards. The \<^verbatim>\<open>INSERT\<close> names all fifteen
  columns, \<open>insert_values\<close> is the row of its parameters; \<^verbatim>\<open>project_id\<close> is the primary key and \<^verbatim>\<open>project_name\<close> is
  \<^verbatim>\<open>NOT NULL\<close>.
\<close>

definition insert_values :: "string \<Rightarrow> string \<Rightarrow> BRDProjectModel \<Rightarrow> row" where
  "insert_values pid now brd_project =
     \<lparr>row_id = pid,
      row_name = attr (overview brd_project) ''project_name'',
      row_template = Some (template_type brd_project),
      overview_json = model_dump_json (overview brd_project),
      ui_specs_json = json_dumps (JArr (map model_dump (ui_specifications brd_project))),
      api_specs_json = json_dumps (JArr (map model_dump (api_specifications brd_project))),
      llm_prompts_json = json_dumps (JArr (map model_dump (llm_prompts brd_project))),
      db_schema_json = json_dumps (JArr (map model_dump (database_schema brd_project))),
      tech_stack_json = json_dumps (JArr (map model_dump (tech_stack brd_project))),
      traceability_json = json_dumps (JArr (map model_dump (traceability_matrix brd_project))),
      agent_architectures_json =
        json_dumps (JArr (map model_dump (agent_architectures brd_project))),
      agent_configurations_json =
        json_dumps (JArr (map model_dump (agent_configurations brd_project))),
      agent_tasks_json = json_dumps (JArr (map model_dump (agent_tasks brd_project))),
      created_at = now,
      updated_at = now\<rparr>"


text \<open>
  Iterating a loaded value (\<^verbatim>\<open>for spec in ui_specs\<close>) and unpacking it into keyword
  arguments (\<^verbatim>\<open>**spec\<close>). A list yields its elements, a dictionary its keys, a string
  its characters; anything else is not iterable. Only a dictionary can be unpacked.
\<close>

fun py_iter :: "json \<Rightarrow> error + json list" where
  "py_iter (JArr xs) = Inr xs"
| "py_iter (JObj kvs) = Inr (map (\<lambda>kv. JStr (fst kv)) kvs)"
| "py_iter (JStr s) = Inr (map (\<lambda>c. JStr [c]) s)"
| "py_iter _ = Inl TypeError"

fun unpack :: "json \<Rightarrow> error + obj" where
  "unpack (JObj kw) = Inr kw"
| "unpack _ = Inl TypeError"

text \<open>The list comprehension \<^verbatim>\<open>[Model(**spec) for spec in specs]\<close>: all records or an exception.\<close>

fun construct_all :: "lax \<Rightarrow> field list \<Rightarrow> json list \<Rightarrow> error + obj list" where
  "construct_all lx fs [] = Inr []"
| "construct_all lx fs (spec # specs) =
     (case unpack spec of
        Inl e \<Rightarrow> Inl e
      | Inr kw \<Rightarrow>
          (case construct lx fs kw of
             Inl e \<Rightarrow> Inl e
           | Inr r \<Rightarrow>
               (case construct_all lx fs specs of
                  Inl e \<Rightarrow> Inl e
                | Inr rs \<Rightarrow> Inr (r # rs))))"

definition records :: "lax \<Rightarrow> field list \<Rightarrow> jtext \<Rightarrow> error + obj list" where
  "records lx fs cell =
     (case json_loads cell of
        Inl e \<Rightarrow> Inl e
      | Inr specs \<Rightarrow>
          (case py_iter specs of
             Inl e \<Rightarrow> Inl e
           | Inr xs \<Rightarrow> construct_all lx fs xs))"

text \<open>
  One of the nine blocks of \<^verbatim>\<open>get_project\<close>: the collection starts empty and is
  assigned only when the column exists, the cell is true and the whole block loads;
  any exception is logged and swallowed. (\<^verbatim>\<open>idx < len(row)\<close> holds for every column
  that \<^verbatim>\<open>PRAGMA table_info\<close> lists.)
\<close>

definition load_block :: "lax \<Rightarrow> table \<Rightarrow> field list \<Rightarrow> string \<Rightarrow> jtext \<Rightarrow> obj list" where
  "load_block lx t fs col cell =
     (if col \<in> set (columns t) \<and> text_truthy cell then
        (case records lx fs cell of Inl e \<Rightarrow> [] | Inr rs \<Rightarrow> rs)
      else [])"

text \<open>
  \<^verbatim>\<open>get_project\<close>: \<open>Inr None\<close> when no row has the id, \<open>Inl e\<close> when an exception
  leaves the function; \<open>load_overview\<close> is its reading of the overview block, which no
  \<^verbatim>\<open>try\<close> of its own protects. It runs \<^verbatim>\<open>init_database\<close> first, so the table has a
  \<^verbatim>\<open>template_type\<close> column when the row is read, and the positional defaults of
  \<^verbatim>\<open>columns.get('template_type', 2)\<close> and \<^verbatim>\<open>columns.get('overview_json', 3)\<close>
  are for tables without these columns, which this model does not describe.
\<close>

definition load_overview :: "lax \<Rightarrow> jtext \<Rightarrow> error + obj" where
  "load_overview lx cell =
     (case json_loads cell of
        Inl e \<Rightarrow> Inl e
      | Inr overview_dict \<Rightarrow>
          (case unpack overview_dict of
             Inl e \<Rightarrow> Inl e
           | Inr kw \<Rightarrow> construct lx OverviewModel kw))"

definition get_project :: "lax \<Rightarrow> db \<Rightarrow> string \<Rightarrow> error + BRDProjectModel option" where
  "get_project lx d pid =
     (let t = init_database d in
      if ''project_id'' \<notin> set (columns t) then Inl OperationalError
      else
        (case find (\<lambda>r. row_id r = pid) (rows t) of
           None \<Rightarrow> Inr None
         | Some row \<Rightarrow>
             (case load_overview lx (overview_json row) of
                Inl e \<Rightarrow> Inl e
              | Inr ov \<Rightarrow>
                  Inr (Some
                    \<lparr>project_id = Some (row_id row),
                     template_type =
                       (case row_template row of
                          None \<Rightarrow> ''Normal''
                        | Some s \<Rightarrow> if s \<noteq> [] then s else ''Normal''),
                     overview = ov,
                     ui_specifications =
                       load_block lx t UISpecificationModel ''ui_specs_json'' (ui_specs_json row),
                     api_specifications =
                       load_block lx t APISpecificationModel ''api_specs_json''
                         (api_specs_json row),
                     llm_prompts =
                       load_block lx t LLMPromptModel ''llm_prompts_json'' (llm_prompts_json row),
                     database_schema =
                       load_block lx t DatabaseSchemaModel ''db_schema_json'' (db_schema_json row),
                     tech_stack =
                       load_block lx t TechStackModel ''tech_stack_json'' (tech_stack_json row),
                     traceability_matrix =
                       load_block lx t TraceabilityModel ''traceability_json''
                         (traceability_json row),
                     agent_architectures =
                       load_block lx t AgentArchitectureModel ''agent_architectures_json''
                         (agent_architectures_json row),
                     agent_configurations =
                       load_block lx t AgentConfigurationModel ''agent_configurations_json''
                         (agent_configurations_json row),
                     agent_tasks =
                       load_block lx t AgentTaskModel ''agent_tasks_json''
                         (agent_tasks_json row)\<rparr>))))"

text \<open>
  \<^verbatim>\<open>update_project\<close>: an \<^verbatim>\<open>UPDATE ... WHERE project_id = ?\<close> of every column but
  \<^verbatim>\<open>project_id\<close> and \<^verbatim>\<open>created_at\<close>. No row matches an id that is absent (or
  \<^verbatim>\<open>None\<close>), and the function still returns \<^verbatim>\<open>True\<close>.
\<close>

definition update_values :: "string \<Rightarrow> BRDProjectModel \<Rightarrow> row \<Rightarrow> row" where
  "update_values now brd_project r =
     r\<lparr>row_name := attr (overview brd_project) ''project_name'',
       row_template := Some (template_type brd_project),
       overview_json := model_dump_json (overview brd_project),
       ui_specs_json := json_dumps (JArr (map model_dump (ui_specifications brd_project))),
       api_specs_json := json_dumps (JArr (map model_dump (api_specifications brd_project))),
       llm_prompts_json := json_dumps (JArr (map model_dump (llm_prompts brd_project))),
       db_schema_json := json_dumps (JArr (map model_dump (database_schema brd_project))),
       tech_stack_json := json_dumps (JArr (map model_dump (tech_stack brd_project))),
       traceability_json := json_dumps (JArr (map model_dump (traceability_matrix brd_project))),
       agent_architectures_json :=
         json_dumps (JArr (map model_dump (agent_architectures brd_project))),
       agent_configurations_json :=
         json_dumps (JArr (map model_dump (agent_configurations brd_project))),
       agent_tasks_json := json_dumps (JArr (map model_dump (agent_tasks brd_project))),
       updated_at := now\<rparr>"


section \<open>Tabular exporter (utils/excel\_export.py)\<close>


































section \<open>Suggestion gateway (utils/llm\_integration.py)\<close>









section \<open>Vocabulary of the statements\<close>




text \<open>The nine record collections, their classes, columns, cells and fields.\<close>

datatype kind = UI | API | LLM | DB | Tech | Trace | AgentArch | AgentConf | AgentTask



fun cell_of :: "kind \<Rightarrow> row \<Rightarrow> jtext" where
  "cell_of UI r = ui_specs_json r"
| "cell_of API r = api_specs_json r"
| "cell_of LLM r = llm_prompts_json r"
| "cell_of DB r = db_schema_json r"
| "cell_of Tech r = tech_stack_json r"
| "cell_of Trace r = traceability_json r"
| "cell_of AgentArch r = agent_architectures_json r"
| "cell_of AgentConf r = agent_configurations_json r"
| "cell_of AgentTask r = agent_tasks_json r"

fun collection :: "kind \<Rightarrow> BRDProjectModel \<Rightarrow> obj list" where
  "collection UI p = ui_specifications p"
| "collection API p = api_specifications p"
| "collection LLM p = llm_prompts p"
| "collection DB p = database_schema p"
| "collection Tech p = tech_stack p"
| "collection Trace p = traceability_matrix p"
| "collection AgentArch p = agent_architectures p"
| "collection AgentConf p = agent_configurations p"
| "collection AgentTask p = agent_tasks p"





text \<open>A row after the migration of a table that had the columns \<open>cols\<close>.\<close>

definition migrated :: "string list \<Rightarrow> row \<Rightarrow> row" where
  "migrated cols r =
     r\<lparr>row_template :=
         (if ''template_type'' \<in> set cols then row_template r else Some ''Normal''),
       agent_architectures_json :=
         (if ''agent_architectures_json'' \<in> set cols then agent_architectures_json r
          else Doc (JArr [])),
       agent_configurations_json :=
         (if ''agent_configurations_json'' \<in> set cols then agent_configurations_json r
          else Doc (JArr [])),
       agent_tasks_json :=
         (if ''agent_tasks_json'' \<in> set cols then agent_tasks_json r else Doc (JArr []))\<rparr>"

text \<open>What a freshly loaded aggregate carries as id and template kind.\<close>

definition as_loaded :: "string \<Rightarrow> BRDProjectModel \<Rightarrow> BRDProjectModel" where
  "as_loaded pid p =
     p\<lparr>project_id := Some pid,
       template_type := (if template_type p \<noteq> [] then template_type p else ''Normal'')\<rparr>"

text \<open>
  The example of the specification: the project "Order Tracker" with one UI specification,
  as built by \<^verbatim>\<open>OverviewModel\<close>, \<^verbatim>\<open>UISpecificationModel\<close> and
  \<^verbatim>\<open>BRDProjectModel\<close> from the fields given there.
\<close>

definition order_tracker_overview :: obj where
  "order_tracker_overview =
    [(''project_name'', JStr ''Order Tracker''),
     (''project_description'', JStr ''Tracks customer orders end to end''),
     (''business_goal'', JStr ''Reduce order-status inquiries by 40%''),
     (''document_version'', JStr ''1.0''),
     (''prepared_by'', JStr ''''),
     (''approved_by'', JStr ''''),
     (''target_release_date'', JNull)]"

definition order_list :: obj where
  "order_list =
    [(''requirement_id'', JStr ''''),
     (''feature_module'', JStr ''''),
     (''screen_component'', JStr ''Order List''),
     (''requirement_description'', JStr ''Paginated list of orders with status filter''),
     (''validation_rule'', JStr ''''),
     (''business_rule'', JStr ''''),
     (''master_detail'', JStr ''N/A''),
     (''priority'', JStr ''Should'')]"

definition order_tracker :: BRDProjectModel where
  "order_tracker =
    \<lparr>project_id = None, template_type = ''Normal'', overview = order_tracker_overview,
     ui_specifications = [order_list], api_specifications = [], llm_prompts = [],
     database_schema = [], tech_stack = [], traceability_matrix = [],
     agent_architectures = [], agent_configurations = [], agent_tasks = []\<rparr>"

text \<open>The keyword arguments of the calls in app.py that build a record from form fields.\<close>

definition api_kwargs ::
    "string \<Rightarrow> string \<Rightarrow> string \<Rightarrow> string \<Rightarrow> string \<Rightarrow> string \<Rightarrow> string \<Rightarrow> string \<Rightarrow> obj" where
  "api_kwargs api_id api_name method endpoint api_type request_payload response_payload
     business_rule =
    [(''api_id'', JStr api_id), (''api_name'', JStr api_name), (''method'', JStr method),
     (''endpoint'', JStr endpoint), (''api_type'', JStr api_type),
     (''request_payload'', JStr request_payload), (''response_payload'', JStr response_payload),
     (''business_rule'', JStr business_rule)]"

definition llm_kwargs ::
    "string \<Rightarrow> string \<Rightarrow> string \<Rightarrow> pyfloat \<Rightarrow> string \<Rightarrow> string \<Rightarrow> string \<Rightarrow> obj" where
  "llm_kwargs prompt_id use_case model_name temperature input_variables prompt_template
     expected_output =
    [(''prompt_id'', JStr prompt_id), (''use_case'', JStr use_case),
     (''model_name'', JStr model_name), (''temperature'', JFloat temperature),
     (''input_variables'', JStr input_variables), (''prompt_template'', JStr prompt_template),
     (''expected_output'', JStr expected_output)]"

definition in_range :: "pyfloat \<Rightarrow> bool" where
  "in_range x = (case x of Finite q \<Rightarrow> 0 \<le> q \<and> q \<le> 2 | _ \<Rightarrow> False)"

section \<open>Properties of the record schema library\<close>

lemma errors_member:
  "f \<in> set fs \<Longrightarrow> validate_field lx kw f = Inl e \<Longrightarrow> (fname f, e) \<in> set (errors lx fs kw)"
  by (force simp: errors_def)








lemma distinct_names:
  "distinct (map fname OverviewModel)"
  "distinct (map fname UISpecificationModel)"
  "distinct (map fname APISpecificationModel)"
  "distinct (map fname LLMPromptModel)"
  "distinct (map fname DatabaseSchemaModel)"
  "distinct (map fname TechStackModel)"
  "distinct (map fname TraceabilityModel)"
  "distinct (map fname AgentArchitectureModel)"
  "distinct (map fname AgentConfigurationModel)"
  "distinct (map fname AgentTaskModel)"
  by (simp_all add: OverviewModel_def UISpecificationModel_def APISpecificationModel_def
      LLMPromptModel_def DatabaseSchemaModel_def TechStackModel_def TraceabilityModel_def
      AgentArchitectureModel_def AgentConfigurationModel_def AgentTaskModel_def
      str_field_def optional_str_field_def float_field_def bool_field_def)

text \<open>
  Claim C4. Whenever the arguments of a record constructor violate the declaration of some
  field (the field is required and missing, its value has the wrong type, or the value
  breaks a length or range bound), construction fails with one \<^verbatim>\<open>ValidationError\<close>
  that lists every violated field of the class with its kind of violation, not only the
  first one.
\<close>
theorem construct_names_every_violation:
  assumes "f \<in> set fs" and "validate_field lx kw f = Inl e"
  shows "\<exists>errs. construct lx fs kw = Inl (ValidationError errs) \<and>
           (\<forall>g\<in>set fs. \<forall>e'. validate_field lx kw g = Inl e' \<longrightarrow> (fname g, e') \<in> set errs)"
proof -
  have "(fname f, e) \<in> set (errors lx fs kw)"
    using assms by (rule errors_member)
  then have "errors lx fs kw \<noteq> []" by auto
  then have "construct lx fs kw = Inl (ValidationError (errors lx fs kw))"
    by (simp add: construct_def)
  then show ?thesis using errors_member by blast
qed

lemma errors_Nil [simp]: "errors lx [] kw = []"
  by (simp add: errors_def)

lemma errors_Cons:
  "errors lx (f # fs) kw =
     (case validate_field lx kw f of Inl e \<Rightarrow> [(fname f, e)] | Inr v \<Rightarrow> []) @ errors lx fs kw"
  by (simp add: errors_def)

lemma errors_empty_iff:
  "errors lx fs kw = [] \<longleftrightarrow> (\<forall>f\<in>set fs. \<exists>v. validate_field lx kw f = Inr v)"
  by (induction fs) (auto simp: errors_Cons split: sum.splits)

lemma validate_str_field:
  "map_of kw n = Some (JStr s) \<Longrightarrow>
   validate_field lx kw (str_field n d mn mx) =
     (if (case mn of None \<Rightarrow> False | Some k \<Rightarrow> length s < k) then Inl Too_short
      else if (case mx of None \<Rightarrow> False | Some k \<Rightarrow> k < length s) then Inl Too_long
      else Inr (JStr s))"
  by (simp add: validate_field_def str_field_def check_def)

lemma validate_float_field:
  "map_of kw n = Some (JFloat x) \<Longrightarrow>
   validate_field lx kw (float_field n d lo hi) =
     (if ge_ok lo x \<and> le_ok hi x then Inr (JFloat x) else Inl Out_of_range)"
  by (simp add: validate_field_def float_field_def check_def)

lemma api_errors:
  "errors lx APISpecificationModel (api_kwargs i n m e ty rq rs br) = [] \<longleftrightarrow>
     (1 \<le> length i \<and> length i \<le> 50 \<and> 1 \<le> length n \<and> length n \<le> 255 \<and>
      1 \<le> length e \<and> length e \<le> 255 \<and> length rq \<le> 2000 \<and> length rs \<le> 2000 \<and>
      length br \<le> 1000)"
proof -
  have m: "map_of (api_kwargs i n m e ty rq rs br) ''api_id'' = Some (JStr i)"
    "map_of (api_kwargs i n m e ty rq rs br) ''api_name'' = Some (JStr n)"
    "map_of (api_kwargs i n m e ty rq rs br) ''method'' = Some (JStr m)"
    "map_of (api_kwargs i n m e ty rq rs br) ''endpoint'' = Some (JStr e)"
    "map_of (api_kwargs i n m e ty rq rs br) ''request_payload'' = Some (JStr rq)"
    "map_of (api_kwargs i n m e ty rq rs br) ''response_payload'' = Some (JStr rs)"
    "map_of (api_kwargs i n m e ty rq rs br) ''business_rule'' = Some (JStr br)"
    "map_of (api_kwargs i n m e ty rq rs br) ''api_type'' = Some (JStr ty)"
    by (simp_all add: api_kwargs_def)
  show ?thesis
    unfolding errors_empty_iff APISpecificationModel_def
    by (simp add: validate_str_field m not_less Suc_le_eq) linarith?
qed

lemma required_missing:
  assumes "f \<in> set fs" "fdefault f = None" "map_of kw (fname f) = None"
  shows "\<exists>errs. construct lx fs kw = Inl (ValidationError errs) \<and> (fname f, Missing) \<in> set errs"
proof -
  have "validate_field lx kw f = Inl Missing"
    using assms(2,3) by (simp add: validate_field_def)
  then have m: "(fname f, Missing) \<in> set (errors lx fs kw)"
    using assms(1) by (rule errors_member [rotated])
  then have "errors lx fs kw \<noteq> []" by auto
  then have "construct lx fs kw = Inl (ValidationError (errors lx fs kw))"
    by (simp add: construct_def)
  with m show ?thesis by blast
qed

lemma api_required:
  "str_field ''api_id'' None (Some 1) (Some 50) \<in> set APISpecificationModel"
  "str_field ''api_name'' None (Some 1) (Some 255) \<in> set APISpecificationModel"
  "str_field ''method'' None None None \<in> set APISpecificationModel"
  "str_field ''endpoint'' None (Some 1) (Some 255) \<in> set APISpecificationModel"
  by (simp_all add: APISpecificationModel_def)

lemma str_field_sel [simp]:
  "fname (str_field n d mn mx) = n"
  "fdefault (str_field n d mn mx) = map_option JStr d"
  by (simp_all add: str_field_def)

text \<open>
  Claim C8, as the code has it. Built from eight strings, an API specification is accepted
  exactly when id, name and endpoint are non-empty and within 50, 255 and 255 characters,
  both payload descriptions are within 2000 characters and the business rule within 1000;
  the payloads may be empty and the method may be any string. Without a value for
  \<^verbatim>\<open>api_id\<close>, \<^verbatim>\<open>api_name\<close>, \<^verbatim>\<open>method\<close> or \<^verbatim>\<open>endpoint\<close> construction
  fails and reports that field as missing.
\<close>
theorem api_construction:
  "((\<exists>r. construct lx APISpecificationModel (api_kwargs i n m e ty rq rs br) = Inr r) \<longleftrightarrow>
     (1 \<le> length i \<and> length i \<le> 50 \<and> 1 \<le> length n \<and> length n \<le> 255 \<and>
      1 \<le> length e \<and> length e \<le> 255 \<and> length rq \<le> 2000 \<and> length rs \<le> 2000 \<and>
      length br \<le> 1000)) \<and>
   (k \<in> {''api_id'', ''api_name'', ''method'', ''endpoint''} \<and> map_of kw k = None \<longrightarrow>
      (\<exists>errs. construct lx APISpecificationModel kw = Inl (ValidationError errs) \<and>
         (k, Missing) \<in> set errs))"
proof (intro conjI impI)
  have "(\<exists>r. construct lx APISpecificationModel (api_kwargs i n m e ty rq rs br) = Inr r) \<longleftrightarrow>
      errors lx APISpecificationModel (api_kwargs i n m e ty rq rs br) = []"
    by (simp add: construct_def)
  then show "(\<exists>r. construct lx APISpecificationModel (api_kwargs i n m e ty rq rs br) = Inr r) \<longleftrightarrow>
     (1 \<le> length i \<and> length i \<le> 50 \<and> 1 \<le> length n \<and> length n \<le> 255 \<and>
      1 \<le> length e \<and> length e \<le> 255 \<and> length rq \<le> 2000 \<and> length rs \<le> 2000 \<and>
      length br \<le> 1000)"
    by (simp only: api_errors)
next
  assume a: "k \<in> {''api_id'', ''api_name'', ''method'', ''endpoint''} \<and> map_of kw k = None"
  then consider "k = ''api_id''" | "k = ''api_name''" | "k = ''method''" | "k = ''endpoint''"
    by blast
  then show "\<exists>errs. construct lx APISpecificationModel kw = Inl (ValidationError errs) \<and>
         (k, Missing) \<in> set errs"
  proof cases
    case 1
    then show ?thesis using required_missing [OF api_required(1), of kw lx] a by simp
  next
    case 2
    then show ?thesis using required_missing [OF api_required(2), of kw lx] a by simp
  next
    case 3
    then show ?thesis using required_missing [OF api_required(3), of kw lx] a by simp
  next
    case 4
    then show ?thesis using required_missing [OF api_required(4), of kw lx] a by simp
  qed
qed

text \<open>
  Claim C8 as stated fails: an API specification with empty request and response
  payloads and the method TRACE is constructed.
\<close>
theorem api_construction_counterexample:
  "construct no_conversion APISpecificationModel
     (api_kwargs ''API-001'' ''Submit New Feedback'' ''TRACE'' ''/api/v1/feedback'' ''Internal''
        [] [] [])
   = Inr [(''api_id'', JStr ''API-001''), (''api_name'', JStr ''Submit New Feedback''),
          (''method'', JStr ''TRACE''), (''endpoint'', JStr ''/api/v1/feedback''),
          (''request_payload'', JStr []), (''response_payload'', JStr []),
          (''business_rule'', JStr []), (''api_type'', JStr ''Internal'')]"
  by (simp add: construct_def errors_def fields_set_def validate_field_def check_def
      APISpecificationModel_def str_field_def api_kwargs_def)

lemma fields_set_lookup:
  assumes "distinct (map fname fs)" "f \<in> set fs" "validate_field lx kw f = Inr v"
  shows "map_of (fields_set lx fs kw) (fname f) = Some v"
  using assms
proof (induction fs)
  case Nil
  then show ?case by simp
next
  case (Cons g gs)
  have unfold: "fields_set lx (g # gs) kw =
      (case validate_field lx kw g of Inl e \<Rightarrow> [] | Inr w \<Rightarrow> [(fname g, w)]) @ fields_set lx gs kw"
    by (simp add: fields_set_def)
  show ?case
  proof (cases "f = g")
    case True
    then show ?thesis using Cons.prems(3) by (simp add: unfold)
  next
    case False
    then have fin: "f \<in> set gs" using Cons.prems(2) by simp
    then have ne: "fname g \<noteq> fname f" using Cons.prems(1) by auto
    have "map_of (fields_set lx gs kw) (fname f) = Some v"
      using Cons.IH fin Cons.prems(1,3) by simp
    then show ?thesis using ne by (simp add: unfold split: sum.splits)
  qed
qed

lemma ge_le_in_range: "ge_ok (Some 0) x \<and> le_ok (Some 2) x \<longleftrightarrow> in_range x"
  by (cases x) (simp_all add: ge_ok_def le_ok_def in_range_def)

lemma temperature_validated:
  assumes "validate_field lx kw (float_field ''temperature'' (Some (7 / 10)) (Some 0) (Some 2)) = Inr v"
  shows "\<exists>x. v = JFloat x \<and> in_range x"
proof (cases "map_of kw ''temperature''")
  case None
  then have "v = JFloat (Finite (7 / 10))"
    using assms by (simp add: validate_field_def float_field_def)
  then show ?thesis by (simp add: in_range_def)
next
  case (Some u)
  then obtain w where w: "coerce lx TFloat u = Some w"
    using assms by (auto simp: validate_field_def float_field_def split: option.splits)
  then obtain x where x: "w = JFloat x"
    by (cases u) auto
  have "check (float_field ''temperature'' (Some (7 / 10)) (Some 0) (Some 2)) w = None \<and> v = w"
    using assms Some w by (auto simp: validate_field_def float_field_def split: option.splits)
  then have "in_range x \<and> v = JFloat x"
    using x ge_le_in_range [of x] by (auto simp: check_def float_field_def split: if_splits)
  then show ?thesis by blast
qed

lemma llm_temperature_field:
  "float_field ''temperature'' (Some (7 / 10)) (Some 0) (Some 2) \<in> set LLMPromptModel"
  by (simp add: LLMPromptModel_def)

lemma float_field_sel [simp]: "fname (float_field n d lo hi) = n"
  by (simp add: float_field_def)

lemma llm_errors:
  "errors lx LLMPromptModel (llm_kwargs pid uc mn x iv pt eo) = [] \<longleftrightarrow>
     (1 \<le> length pid \<and> length pid \<le> 50 \<and> 1 \<le> length uc \<and> length uc \<le> 255 \<and>
      10 \<le> length pt \<and> length pt \<le> 5000 \<and> length iv \<le> 1000 \<and> length eo \<le> 1000 \<and>
      in_range x)"
proof -
  have m: "map_of (llm_kwargs pid uc mn x iv pt eo) ''prompt_id'' = Some (JStr pid)"
    "map_of (llm_kwargs pid uc mn x iv pt eo) ''use_case'' = Some (JStr uc)"
    "map_of (llm_kwargs pid uc mn x iv pt eo) ''prompt_template'' = Some (JStr pt)"
    "map_of (llm_kwargs pid uc mn x iv pt eo) ''input_variables'' = Some (JStr iv)"
    "map_of (llm_kwargs pid uc mn x iv pt eo) ''expected_output'' = Some (JStr eo)"
    "map_of (llm_kwargs pid uc mn x iv pt eo) ''model_name'' = Some (JStr mn)"
    "map_of (llm_kwargs pid uc mn x iv pt eo) ''temperature'' = Some (JFloat x)"
    by (simp_all add: llm_kwargs_def)
  show ?thesis
    unfolding errors_empty_iff LLMPromptModel_def
    by (simp add: validate_str_field validate_float_field m not_less Suc_le_eq ge_le_in_range)
      linarith?
qed

text \<open>
  Claim C9, as the code has it. Every constructed LLM prompt has a temperature in the
  inclusive range 0.0 to 2.0; built from its seven fields, a prompt is accepted exactly
  when the temperature is in that range and the text fields keep their length bounds,
  whatever the model name is.
\<close>
theorem llm_construction:
  "(construct lx LLMPromptModel kw = Inr r \<longrightarrow>
      (\<exists>x. attr r ''temperature'' = JFloat x \<and> in_range x)) \<and>
   ((\<exists>r. construct lx LLMPromptModel (llm_kwargs pid uc mn x iv pt eo) = Inr r) \<longleftrightarrow>
     (1 \<le> length pid \<and> length pid \<le> 50 \<and> 1 \<le> length uc \<and> length uc \<le> 255 \<and>
      10 \<le> length pt \<and> length pt \<le> 5000 \<and> length iv \<le> 1000 \<and> length eo \<le> 1000 \<and>
      in_range x))"
proof (intro conjI impI)
  assume c: "construct lx LLMPromptModel kw = Inr r"
  then have e: "errors lx LLMPromptModel kw = []" and r: "r = fields_set lx LLMPromptModel kw"
    by (auto simp: construct_def split: if_splits)
  from e obtain v where
    v: "validate_field lx kw (float_field ''temperature'' (Some (7 / 10)) (Some 0) (Some 2)) = Inr v"
    using llm_temperature_field unfolding errors_empty_iff by blast
  have "map_of r ''temperature'' = Some v"
    using fields_set_lookup [OF distinct_names(4) llm_temperature_field v] r by simp
  then have "attr r ''temperature'' = v" by (simp add: attr_def)
  then show "\<exists>x. attr r ''temperature'' = JFloat x \<and> in_range x"
    using temperature_validated [OF v] by simp
next
  have "(\<exists>r. construct lx LLMPromptModel (llm_kwargs pid uc mn x iv pt eo) = Inr r) \<longleftrightarrow>
      errors lx LLMPromptModel (llm_kwargs pid uc mn x iv pt eo) = []"
    by (simp add: construct_def)
  then show "(\<exists>r. construct lx LLMPromptModel (llm_kwargs pid uc mn x iv pt eo) = Inr r) \<longleftrightarrow>
     (1 \<le> length pid \<and> length pid \<le> 50 \<and> 1 \<le> length uc \<and> length uc \<le> 255 \<and>
      10 \<le> length pt \<and> length pt \<le> 5000 \<and> length iv \<le> 1000 \<and> length eo \<le> 1000 \<and>
      in_range x)"
    by (simp only: llm_errors)
qed

text \<open>
  Claim C9 as stated fails: a prompt for the model "gpt-4", which is not one of the four
  listed names, is constructed.
\<close>
theorem llm_construction_counterexample:
  "construct no_conversion LLMPromptModel
     (llm_kwargs ''LLM-001'' ''Customer Sentiment Analysis'' ''gpt-4'' (Finite (1 / 5))
        ''[FEEDBACK_TEXT]'' ''Analyze sentiment of: [FEEDBACK_TEXT]'' [])
   = Inr [(''prompt_id'', JStr ''LLM-001''), (''use_case'', JStr ''Customer Sentiment Analysis''),
          (''prompt_template'', JStr ''Analyze sentiment of: [FEEDBACK_TEXT]''),
          (''input_variables'', JStr ''[FEEDBACK_TEXT]''), (''expected_output'', JStr []),
          (''model_name'', JStr ''gpt-4''), (''temperature'', JFloat (Finite (1 / 5)))]"
  by (simp add: construct_def errors_def fields_set_def validate_field_def check_def
      ge_ok_def le_ok_def LLMPromptModel_def str_field_def float_field_def llm_kwargs_def)

text \<open>
  The temperature 0.2 is accepted and the temperature 2.5 is refused.
\<close>
theorem llm_construction_witness:
  "(\<exists>r. construct no_conversion LLMPromptModel
      (llm_kwargs ''LLM-001'' ''Customer Sentiment Analysis'' ''llama3.2'' (Finite (1 / 5))
        ''[FEEDBACK_TEXT]'' ''Analyze sentiment of: [FEEDBACK_TEXT]'' []) = Inr r) \<and>
   \<not> (\<exists>r. construct no_conversion LLMPromptModel
      (llm_kwargs ''LLM-001'' ''Customer Sentiment Analysis'' ''llama3.2'' (Finite (5 / 2))
        ''[FEEDBACK_TEXT]'' ''Analyze sentiment of: [FEEDBACK_TEXT]'' []) = Inr r)"
  using llm_construction [of no_conversion "[]" "[]" "''LLM-001''" "''Customer Sentiment Analysis''"
      "''llama3.2''" "Finite (1 / 5)" "''[FEEDBACK_TEXT]''" "''Analyze sentiment of: [FEEDBACK_TEXT]''" "[]"]
    llm_construction [of no_conversion "[]" "[]" "''LLM-001''" "''Customer Sentiment Analysis''"
      "''llama3.2''" "Finite (5 / 2)" "''[FEEDBACK_TEXT]''" "''Analyze sentiment of: [FEEDBACK_TEXT]''" "[]"]
  by (simp add: in_range_def)

text \<open>
  A POST endpoint with empty payloads is accepted; arguments without an endpoint are not.
\<close>
theorem api_construction_witness:
  "(\<exists>r. construct no_conversion APISpecificationModel
      (api_kwargs ''API-001'' ''Submit New Feedback'' ''POST'' ''/api/v1/feedback'' ''Internal''
        [] [] []) = Inr r) \<and>
   (\<exists>errs. construct no_conversion APISpecificationModel [(''api_id'', JStr ''API-001'')]
        = Inl (ValidationError errs) \<and> (''endpoint'', Missing) \<in> set errs)"
  using api_construction [of no_conversion "''API-001''" "''Submit New Feedback''" "''POST''"
      "''/api/v1/feedback''" "''Internal''" "[]" "[]" "[]" "''endpoint''"
      "[(''api_id'', JStr ''API-001'')]"]
  by simp

text \<open>
  An LLM prompt with an empty use case and the temperature 2.5: both fields are reported.
\<close>
theorem construct_names_every_violation_witness:
  "\<exists>errs. construct no_conversion LLMPromptModel
       (llm_kwargs ''LLM-001'' [] ''llama3.2'' (Finite (5 / 2)) [] ''Analyze sentiment of: [X]'' [])
     = Inl (ValidationError errs) \<and>
     (''use_case'', Too_short) \<in> set errs \<and> (''temperature'', Out_of_range) \<in> set errs"
proof -
  let ?kw = "llm_kwargs ''LLM-001'' [] ''llama3.2'' (Finite (5 / 2)) [] ''Analyze sentiment of: [X]'' []"
  let ?u = "str_field ''use_case'' None (Some 1) (Some 255)"
  let ?t = "float_field ''temperature'' (Some (7 / 10)) (Some 0) (Some 2)"
  have u: "?u \<in> set LLMPromptModel" and t: "?t \<in> set LLMPromptModel"
    by (simp_all add: LLMPromptModel_def)
  have vu: "validate_field no_conversion ?kw ?u = Inl Too_short"
    by (simp add: validate_field_def str_field_def check_def llm_kwargs_def)
  have vt: "validate_field no_conversion ?kw ?t = Inl Out_of_range"
    by (simp add: validate_field_def float_field_def check_def ge_ok_def le_ok_def llm_kwargs_def)
  from construct_names_every_violation [OF u vu] obtain errs where
    e: "construct no_conversion LLMPromptModel ?kw = Inl (ValidationError errs)"
    and a: "\<forall>g\<in>set LLMPromptModel. \<forall>e'. validate_field no_conversion ?kw g = Inl e'
           \<longrightarrow> (fname g, e') \<in> set errs"
    by blast
  have "(fname ?u, Too_short) \<in> set errs" using a u vu by blast
  moreover have "(fname ?t, Out_of_range) \<in> set errs" using a t vt by blast
  ultimately show ?thesis using e by auto
qed

section \<open>Properties of the persistence store\<close>

lemma migrated_fields [simp]:
  "row_id (migrated cols r) = row_id r"
  "overview_json (migrated cols r) = overview_json r"
  "ui_specs_json (migrated cols r) = ui_specs_json r"
  "api_specs_json (migrated cols r) = api_specs_json r"
  "llm_prompts_json (migrated cols r) = llm_prompts_json r"
  "db_schema_json (migrated cols r) = db_schema_json r"
  "tech_stack_json (migrated cols r) = tech_stack_json r"
  "traceability_json (migrated cols r) = traceability_json r"
  by (simp_all add: migrated_def)


lemma migrated_alt:
  "migrated cols =
     (\<lambda>r. r\<lparr>row_template :=
         (if ''template_type'' \<in> set cols then row_template r else Some ''Normal''),
       agent_architectures_json :=
         (if ''agent_architectures_json'' \<in> set cols then agent_architectures_json r
          else Doc (JArr [])),
       agent_configurations_json :=
         (if ''agent_configurations_json'' \<in> set cols then agent_configurations_json r
          else Doc (JArr [])),
       agent_tasks_json :=
         (if ''agent_tasks_json'' \<in> set cols then agent_tasks_json r else Doc (JArr []))\<rparr>)"
  by (rule ext) (simp add: migrated_def)

lemma init_database_rows:
  "rows (init_database (Some t)) = map (migrated (columns t)) (rows t)"
  by (cases "''template_type'' \<in> set (columns t)";
      cases "''agent_architectures_json'' \<in> set (columns t)";
      cases "''agent_configurations_json'' \<in> set (columns t)";
      cases "''agent_tasks_json'' \<in> set (columns t)";
      simp add: init_database_def required_columns_def add_column_def migrated_alt Let_def
        comp_def)

lemma init_database_Some:
  "init_database (Some t) =
     \<lparr>columns = columns t @ filter (\<lambda>c. c \<notin> set (columns t)) (map fst required_columns),
      rows = map (migrated (columns t)) (rows t)\<rparr>"
proof -
  have c: "columns (init_database (Some t)) =
      columns t @ filter (\<lambda>c. c \<notin> set (columns t)) (map fst required_columns)"
    by (simp add: init_database_def required_columns_def add_column_def Let_def)
  show ?thesis using init_database_rows [of t] c by (cases "init_database (Some t)") simp
qed



lemma init_database_keeps: "c \<in> set (columns t) \<Longrightarrow> c \<in> set (columns (init_database (Some t)))"
  by (simp add: init_database_Some)










subsection \<open>Loading a row\<close>


lemma get_project_raises:
  assumes "''project_id'' \<in> set (columns (init_database d))"
    and "find (\<lambda>r. row_id r = pid) (rows (init_database d)) = Some row"
    and "load_overview lx (overview_json row) = Inl e"
  shows "get_project lx d pid = Inl e"
  using assms by (simp add: get_project_def Let_def)


lemma load_block_Malformed: "load_block lx t fs col Malformed = []"
  by (simp add: load_block_def records_def json_loads_def)





lemma find_updated:
  assumes "\<And>r. row_id (g r) = row_id r"
  shows "find (\<lambda>r. row_id r = pid) (map g rs) = map_option g (find (\<lambda>r. row_id r = pid) rs)"
  using assms by (induction rs) auto


subsection \<open>Saving, then loading\<close>

lemma insert_values_fields [simp]:
  "row_id (insert_values pid now p) = pid"
  "row_template (insert_values pid now p) = Some (template_type p)"
  "overview_json (insert_values pid now p) = model_dump_json (overview p)"
  "cell_of k (insert_values pid now p) = json_dumps (JArr (map model_dump (collection k p)))"
  by (cases k; simp add: insert_values_def)+

lemma update_values_fields [simp]:
  "row_id (update_values now p r) = row_id r"
  "row_template (update_values now p r) = Some (template_type p)"
  "overview_json (update_values now p r) = model_dump_json (overview p)"
  "cell_of k (update_values now p r) = json_dumps (JArr (map model_dump (collection k p)))"
  by (cases k; simp add: update_values_def)+




lemma as_loaded_fields [simp]:
  "project_id (as_loaded pid p) = Some pid"
  "template_type (as_loaded pid p) =
     (if template_type p \<noteq> [] then template_type p else ''Normal'')"
  "overview (as_loaded pid p) = overview p"
  "collection k (as_loaded pid p) = collection k p"
  by (cases k; simp add: as_loaded_def)+










lemma find_migrated:
  "find (\<lambda>r. row_id r = pid) (rows t) = Some row
   \<Longrightarrow> find (\<lambda>r. row_id r = pid) (rows (init_database (Some t))) =
         Some (migrated (columns t) row)"
  using find_updated [of "migrated (columns t)" pid "rows t"]
  by (simp add: init_database_rows)









text \<open>
  Claim C10. When the overview block of the row is malformed JSON, or is a JSON object that
  \<^verbatim>\<open>OverviewModel\<close> refuses, \<^verbatim>\<open>get_project\<close> raises: the whole load fails. A
  malformed collection block, in contrast, is loaded as the empty collection.
\<close>

theorem corrupt_overview_fails_load:
  assumes "''project_id'' \<in> set (columns t)"
    and "find (\<lambda>r. row_id r = pid) (rows t) = Some row"
    and "overview_json row = Malformed \<or>
         (\<exists>kw e. overview_json row = Doc (JObj kw) \<and> construct lx OverviewModel kw = Inl e)"
  shows "(\<exists>e. get_project lx (Some t) pid = Inl e) \<and> load_block lx t' fs col Malformed = []"
proof
  let ?row = "migrated (columns t) row"
  have c: "''project_id'' \<in> set (columns (init_database (Some t)))"
    using assms(1) by (rule init_database_keeps)
  have f: "find (\<lambda>r. row_id r = pid) (rows (init_database (Some t))) = Some ?row"
    using assms(2) by (rule find_migrated)
  from assms(3) obtain e where "load_overview lx (overview_json row) = Inl e"
    by (auto simp: load_overview_def json_loads_def)
  then have "load_overview lx (overview_json ?row) = Inl e" by simp
  then have "get_project lx (Some t) pid = Inl e"
    by (rule get_project_raises [OF c f])
  then show "\<exists>e. get_project lx (Some t) pid = Inl e" ..
next
  show "load_block lx t' fs col Malformed = []"
    by (rule load_block_Malformed)
qed

text \<open>The row of the example project with a malformed overview block.\<close>

theorem corrupt_overview_fails_load_witness:
  "\<exists>e. get_project no_conversion
          (Some \<lparr>columns = all_columns,
                 rows = [(insert_values ''proj-1'' ''2026-01-01T12:00:00'' order_tracker)
                           \<lparr>overview_json := Malformed\<rparr>]\<rparr>) ''proj-1'' = Inl e"
proof -
  let ?row = "(insert_values ''proj-1'' ''2026-01-01T12:00:00'' order_tracker)
     \<lparr>overview_json := Malformed\<rparr>"
  let ?t = "\<lparr>columns = all_columns, rows = [?row]\<rparr>"
  have "''project_id'' \<in> set (columns ?t)" by (simp add: all_columns_def)
  moreover have "find (\<lambda>r. row_id r = ''proj-1'') (rows ?t) = Some ?row" by simp
  moreover have "overview_json ?row = Malformed" by simp
  ultimately show ?thesis
    using corrupt_overview_fails_load [of ?t "''proj-1''" ?row no_conversion ?t "[]" "[]"]
    by blast
qed



section \<open>Properties of the exporter\<close>





section \<open>Properties of the gateway\<close>





end
